theory Spec2Isabelle
  imports Main "HOL-Library.AList"
begin

section \<open>Discovery records\<close>

text \<open>
  The embedding follows \<open>DiscoveryBrowser.cpp\<close> (class \<open>DiscoveryWrapper\<close>).
  The class \<open>DiscoveryRecord\<close> is declared in a header that is not part of the
  sources at hand; its fields are the ones the wrapper reads (\<open>type\<close>,
  \<open>hostName\<close>, \<open>address\<close>, \<open>port\<close>, \<open>isExists\<close>) and its liveness deadline.
\<close>

text \<open>Modelled from the spec: the enumeration \<open>DiscoveryRecord::Service\<close>, whose
  declaration is missing; the constructors carry the names the wrapper uses.\<close>

datatype Service =
  Unknown | HyperHDR | WLED | PhilipsHue | Pico | ESP32_S2 | ESP | SerialPort

text \<open>Modelled from the spec: the fields of \<open>DiscoveryRecord\<close>, whose declaration is
  missing. The deadline \<open>expiry\<close> is a point in time, counted in clock ticks.\<close>

record DiscoveryRecord =
  type :: Service
  hostName :: string
  address :: string
  port :: int
  isExists :: bool
  expiry :: nat

text \<open>
  What one processing step sees of its surroundings: the clock, the fixed TTL window,
  Qt's parser \<open>QHostAddress(QString)\<close> and the result of
  \<open>QNetworkInterface::allAddresses()\<close>. Host addresses are values of a type \<open>'h\<close>
  that is compared with \<open>=\<close>, as \<open>QHostAddress::operator==\<close> does.
\<close>

record 'h Env =
  now :: nat
  ttlWindow :: nat
  QHostAddress :: "string \<Rightarrow> 'h"
  allAddresses :: "'h list"

text \<open>Modelled from the spec: \<open>DiscoveryRecord::operator==\<close>, missing from the sources.
  Two records are equal iff category, address and port match.\<close>

definition recEq :: "DiscoveryRecord \<Rightarrow> DiscoveryRecord \<Rightarrow> bool" where
  "recEq a b \<longleftrightarrow> type a = type b \<and> address a = address b \<and> port a = port b"

text \<open>Modelled from the spec: \<open>DiscoveryRecord::expired()\<close>, missing from the sources,
  returns \<open>now > expiry\<close>.\<close>

definition expired :: "'h Env \<Rightarrow> DiscoveryRecord \<Rightarrow> bool" where
  "expired e r \<longleftrightarrow> now e > expiry r"

text \<open>Modelled from the spec: \<open>DiscoveryRecord::resetTTL()\<close>, missing from the sources,
  sets \<open>expiry = now + TTL_WINDOW\<close>.\<close>

definition resetTTL :: "'h Env \<Rightarrow> DiscoveryRecord \<Rightarrow> DiscoveryRecord" where
  "resetTTL e r = r\<lparr>expiry := now e + ttlWindow e\<rparr>"

section \<open>The wrapper's state\<close>

text \<open>The two signals that \<open>DiscoveryWrapper\<close> emits. Every \<open>emit\<close> is recorded, in the
  order it happens. No slot of the wrapper is connected to \<open>foundService\<close>.\<close>

datatype Signal =
  FoundService Service "DiscoveryRecord list"
  | RequestToScan Service

text \<open>A \<open>QJsonObject\<close> with string values, as a list of key/value pairs.\<close>

type_synonym QJsonObject = "(string \<times> string) list"

text \<open>The calls the wrapper makes on the device backend: the factory, the device's
  \<open>discover\<close> and the \<open>delete\<close> of the destructor. \<open>'d\<close> is the type of
  (non-null) device pointers.\<close>

datatype 'd BackendCall =
  Construct QJsonObject
  | Discover 'd QJsonObject
  | Delete 'd

text \<open>The members of \<open>DiscoveryWrapper\<close>; \<open>serialDevice = None\<close> is the null pointer.
  \<open>emitted\<close> and \<open>backend\<close> record what the object has done so far.\<close>

record 'd DiscoveryWrapper =
  serialDevice :: "'d option"
  hyperhdrSessions :: "DiscoveryRecord list"
  esp32s2Devices :: "DiscoveryRecord list"
  espDevices :: "DiscoveryRecord list"
  hueDevices :: "DiscoveryRecord list"
  picoDevices :: "DiscoveryRecord list"
  wledDevices :: "DiscoveryRecord list"
  emitted :: "Signal list"
  backend :: "'d BackendCall list"

text \<open>The constructor: the lists are empty, the device pointer is null.\<close>

definition construct :: "'d DiscoveryWrapper" where
  "construct = \<lparr>serialDevice = None, hyperhdrSessions = [], esp32s2Devices = [],
     espDevices = [], hueDevices = [], picoDevices = [], wledDevices = [],
     emitted = [], backend = []\<rparr>"

text \<open>\<open>cleanUp\<close> and \<open>gotMessage\<close> take a reference \<open>QList<DiscoveryRecord>& target\<close>
  to one of the six members; a reference is the name of the member.\<close>

datatype Target =
  HyperhdrSessions | Esp32s2Devices | EspDevices | HueDevices | PicoDevices | WledDevices

fun deref :: "Target \<Rightarrow> 'd DiscoveryWrapper \<Rightarrow> DiscoveryRecord list" where
  "deref HyperhdrSessions s = hyperhdrSessions s"
| "deref Esp32s2Devices s = esp32s2Devices s"
| "deref EspDevices s = espDevices s"
| "deref HueDevices s = hueDevices s"
| "deref PicoDevices s = picoDevices s"
| "deref WledDevices s = wledDevices s"

fun assign :: "Target \<Rightarrow> DiscoveryRecord list \<Rightarrow> 'd DiscoveryWrapper \<Rightarrow> 'd DiscoveryWrapper" where
  "assign HyperhdrSessions xs s = s\<lparr>hyperhdrSessions := xs\<rparr>"
| "assign Esp32s2Devices xs s = s\<lparr>esp32s2Devices := xs\<rparr>"
| "assign EspDevices xs s = s\<lparr>espDevices := xs\<rparr>"
| "assign HueDevices xs s = s\<lparr>hueDevices := xs\<rparr>"
| "assign PicoDevices xs s = s\<lparr>picoDevices := xs\<rparr>"
| "assign WledDevices xs s = s\<lparr>wledDevices := xs\<rparr>"

definition emit :: "Signal \<Rightarrow> 'd DiscoveryWrapper \<Rightarrow> 'd DiscoveryWrapper" where
  "emit sig s = s\<lparr>emitted := emitted s @ [sig]\<rparr>"

section \<open>cleanUp\<close>

text \<open>
  The \<open>while (i.hasNext())\<close> loop of \<open>cleanUp\<close> over a \<open>QMutableListIterator\<close>:
  an expired record is removed and its \<open>type\<close> stored in \<open>action\<close>; the other
  records stay, in order. The result is the list left and the last value of \<open>action\<close>.
  (The \<open>Warning\<close> log line has no effect on the state and is not modelled.)
\<close>

fun cleanUpLoop :: "'h Env \<Rightarrow> DiscoveryRecord list \<Rightarrow> Service \<Rightarrow> DiscoveryRecord list \<times> Service" where
  "cleanUpLoop e [] action = ([], action)"
| "cleanUpLoop e (r # rs) action =
     (if expired e r then cleanUpLoop e rs (type r)
      else (case cleanUpLoop e rs action of (rs', action') \<Rightarrow> (r # rs', action')))"

definition cleanUp :: "'h Env \<Rightarrow> Target \<Rightarrow> 'd DiscoveryWrapper \<Rightarrow> 'd DiscoveryWrapper" where
  "cleanUp e target s =
     (case cleanUpLoop e (deref target s) Unknown of
        (rs, action) \<Rightarrow>
          (let s1 = assign target rs s
           in if action \<noteq> Unknown then emit (FoundService action (deref target s1)) s1 else s1))"

section \<open>gotMessage\<close>

text \<open>The loop \<open>for (DiscoveryRecord& rec : target) if (rec == message) { rec.resetTTL(); return; }\<close>:
  \<open>Some\<close> of the list with the first equal record refreshed, when the loop returns from
  \<open>gotMessage\<close>; \<open>None\<close> when the loop ends without a match.\<close>

fun refreshFirst :: "'h Env \<Rightarrow> DiscoveryRecord list \<Rightarrow> DiscoveryRecord \<Rightarrow> DiscoveryRecord list option" where
  "refreshFirst e [] message = None"
| "refreshFirst e (r # rs) message =
     (if recEq r message then Some (resetTTL e r # rs)
      else map_option ((#) r) (refreshFirst e rs message))"

text \<open>The tail of \<open>gotMessage\<close>: when the length has changed, the new list is assigned
  and \<open>foundService\<close> emitted. (The \<open>Info\<close> log line is not modelled.)\<close>

definition commit :: "Target \<Rightarrow> DiscoveryRecord list \<Rightarrow> DiscoveryRecord \<Rightarrow> 'd DiscoveryWrapper \<Rightarrow> 'd DiscoveryWrapper" where
  "commit target newSessions message s =
     (if length (deref target s) \<noteq> length newSessions
      then (let s1 = assign target newSessions s
            in emit (FoundService (type message) (deref target s1)) s1)
      else s)"

definition gotMessage :: "'h Env \<Rightarrow> Target \<Rightarrow> DiscoveryRecord \<Rightarrow> 'd DiscoveryWrapper \<Rightarrow> 'd DiscoveryWrapper" where
  "gotMessage e target message s =
     (if QHostAddress e (address message) \<in> set (allAddresses e) then s
      else if isExists message then
        (case refreshFirst e (deref target s) message of
           Some rs \<Rightarrow> assign target rs s
         | None \<Rightarrow> commit target (deref target s @ [message]) message s)
      else commit target (filter (\<lambda>rec. \<not> recEq rec message) (deref target s)) message s)"

section \<open>The slots\<close>

text \<open>
  \<open>requestToScanHandler\<close>. \<open>LedDeviceFactory::construct\<close> is not part of the sources
  at hand; it is the parameter \<open>factory\<close>, which returns a device for a configuration.
  The result of \<open>discover\<close> is dropped by the source. After the \<open>if\<close> the pointer
  is not null, since the factory returns a device; the \<open>None\<close> branch of the
  \<open>case\<close> is there to make the function total.
\<close>

definition deviceConfig :: QJsonObject where
  "deviceConfig = AList.update ''type'' ''adalight'' []"

definition params :: QJsonObject where
  "params = []"

definition requestToScanHandler :: "(QJsonObject \<Rightarrow> 'd) \<Rightarrow> Service \<Rightarrow> 'd DiscoveryWrapper \<Rightarrow> 'd DiscoveryWrapper" where
  "requestToScanHandler factory t s =
     (if t = SerialPort then
        (let s1 = (if serialDevice s = None
                   then s\<lparr>serialDevice := Some (factory deviceConfig),
                          backend := backend s @ [Construct deviceConfig]\<rparr>
                   else s)
         in (case serialDevice s1 of
               Some d \<Rightarrow> s1\<lparr>backend := backend s1 @ [Discover d params]\<rparr>
             | None \<Rightarrow> s1))
      else s)"

definition discoveryEventHandler :: "'h Env \<Rightarrow> DiscoveryRecord \<Rightarrow> 'd DiscoveryWrapper \<Rightarrow> 'd DiscoveryWrapper" where
  "discoveryEventHandler e message s =
     (if type message = HyperHDR then gotMessage e HyperhdrSessions message s
      else if type message = WLED then gotMessage e WledDevices message s
      else if type message = PhilipsHue then gotMessage e HueDevices message s
      else if type message = Pico then gotMessage e PicoDevices message s
      else if type message = ESP32_S2 then gotMessage e Esp32s2Devices message s
      else if type message = ESP then gotMessage e EspDevices message s
      else s)"

text \<open>
  \<open>emit requestToScan(t)\<close>. The constructor connects the signal \<open>requestToScan\<close> to the
  slot \<open>requestToScanHandler\<close> of the same object, with the default connection type:
  an \<open>emit\<close> on the object's thread runs the slot before it returns. The signal is
  recorded and the slot is run.
\<close>

definition emitRequestToScan :: "(QJsonObject \<Rightarrow> 'd) \<Rightarrow> Service \<Rightarrow> 'd DiscoveryWrapper \<Rightarrow> 'd DiscoveryWrapper" where
  "emitRequestToScan factory t s = requestToScanHandler factory t (emit (RequestToScan t) s)"

section \<open>The public interface\<close>

definition getPhilipsHUE :: "(QJsonObject \<Rightarrow> 'd) \<Rightarrow> 'h Env \<Rightarrow> 'd DiscoveryWrapper \<Rightarrow> DiscoveryRecord list \<times> 'd DiscoveryWrapper" where
  "getPhilipsHUE factory e s =
     (let s1 = cleanUp e HueDevices s;
          s2 = emitRequestToScan factory PhilipsHue s1
      in (hueDevices s2, s2))"

definition getWLED :: "(QJsonObject \<Rightarrow> 'd) \<Rightarrow> 'h Env \<Rightarrow> 'd DiscoveryWrapper \<Rightarrow> DiscoveryRecord list \<times> 'd DiscoveryWrapper" where
  "getWLED factory e s =
     (let s1 = cleanUp e WledDevices s;
          s2 = emitRequestToScan factory WLED s1
      in (wledDevices s2, s2))"

definition getHyperHDRServices :: "'d DiscoveryWrapper \<Rightarrow> DiscoveryRecord list \<times> 'd DiscoveryWrapper" where
  "getHyperHDRServices s = (hyperhdrSessions s, s)"

definition getAllServices :: "'d DiscoveryWrapper \<Rightarrow> DiscoveryRecord list \<times> 'd DiscoveryWrapper" where
  "getAllServices s =
     (hyperhdrSessions s @ esp32s2Devices s @ espDevices s @ hueDevices s @ picoDevices s
        @ wledDevices s, s)"

definition requestServicesScan :: "(QJsonObject \<Rightarrow> 'd) \<Rightarrow> 'h Env \<Rightarrow> 'd DiscoveryWrapper \<Rightarrow> 'd DiscoveryWrapper" where
  "requestServicesScan factory e s =
     (let s1 = cleanUp e WledDevices s;
          s2 = emitRequestToScan factory WLED s1;
          s3 = cleanUp e HueDevices s2;
          s4 = emitRequestToScan factory PhilipsHue s3;
          s5 = cleanUp e HyperhdrSessions s4;
          s6 = emitRequestToScan factory HyperHDR s5;
          s7 = cleanUp e Esp32s2Devices s6;
          s8 = cleanUp e EspDevices s7;
          s9 = cleanUp e PicoDevices s8
      in emitRequestToScan factory SerialPort s9)"

text \<open>The destructor \<open>~DiscoveryWrapper\<close>.\<close>

definition destroy :: "'d DiscoveryWrapper \<Rightarrow> 'd DiscoveryWrapper" where
  "destroy s =
     (let s1 = (case serialDevice s of
                  Some d \<Rightarrow> s\<lparr>backend := backend s @ [Delete d]\<rparr>
                | None \<Rightarrow> s)
      in s1\<lparr>serialDevice := None\<rparr>)"

section \<open>Sequences of processing steps\<close>

text \<open>The member functions of \<open>DiscoveryWrapper\<close>, as the calls that a sequence of
  processing steps is made of. Each call runs in the surroundings of its own moment.\<close>

datatype Call =
  CallCleanUp Target
  | CallGotMessage Target DiscoveryRecord
  | CallGetPhilipsHUE
  | CallGetWLED
  | CallGetHyperHDRServices
  | CallGetAllServices
  | CallRequestServicesScan
  | CallDiscoveryEventHandler DiscoveryRecord
  | CallRequestToScanHandler Service

fun call :: "(QJsonObject \<Rightarrow> 'd) \<Rightarrow> 'h Env \<times> Call \<Rightarrow> 'd DiscoveryWrapper \<Rightarrow> 'd DiscoveryWrapper" where
  "call factory (e, CallCleanUp target) s = cleanUp e target s"
| "call factory (e, CallGotMessage target message) s = gotMessage e target message s"
| "call factory (e, CallGetPhilipsHUE) s = snd (getPhilipsHUE factory e s)"
| "call factory (e, CallGetWLED) s = snd (getWLED factory e s)"
| "call factory (e, CallGetHyperHDRServices) s = snd (getHyperHDRServices s)"
| "call factory (e, CallGetAllServices) s = snd (getAllServices s)"
| "call factory (e, CallRequestServicesScan) s = requestServicesScan factory e s"
| "call factory (e, CallDiscoveryEventHandler message) s = discoveryEventHandler e message s"
| "call factory (e, CallRequestToScanHandler t) s = requestToScanHandler factory t s"

fun run :: "(QJsonObject \<Rightarrow> 'd) \<Rightarrow> ('h Env \<times> Call) list \<Rightarrow> 'd DiscoveryWrapper \<Rightarrow> 'd DiscoveryWrapper" where
  "run factory [] s = s"
| "run factory (c # cs) s = run factory cs (call factory c s)"

section \<open>Notions used to state the properties\<close>

text \<open>The identity of a record: the three fields that \<open>recEq\<close> compares.\<close>

definition key :: "DiscoveryRecord \<Rightarrow> Service \<times> string \<times> int" where
  "key r = (type r, address r, port r)"

text \<open>No list of the wrapper holds two records with the same identity.\<close>

definition uniqueRecords :: "'d DiscoveryWrapper \<Rightarrow> bool" where
  "uniqueRecords s \<longleftrightarrow> (\<forall>target. distinct (map key (deref target s)))"

text \<open>The calls that deliver a \<open>SerialPort\<close> scan request to \<open>requestToScanHandler\<close>:
  the slot called with \<open>SerialPort\<close>, and \<open>requestServicesScan\<close>, which emits
  \<open>requestToScan(SerialPort)\<close>.\<close>

fun serialScan :: "Call \<Rightarrow> bool" where
  "serialScan (CallRequestToScanHandler t) = (t = SerialPort)"
| "serialScan CallRequestServicesScan = True"
| "serialScan c = False"

text \<open>The number of \<open>SerialPort\<close> scan requests delivered in a sequence of steps.\<close>

definition serialScans :: "('h Env \<times> Call) list \<Rightarrow> nat" where
  "serialScans steps = length (filter (\<lambda>c. serialScan (snd c)) steps)"

text \<open>The category whose sightings \<open>discoveryEventHandler\<close> hands to \<open>gotMessage\<close> with a
  given list as target.\<close>

fun category :: "Target \<Rightarrow> Service" where
  "category HyperhdrSessions = HyperHDR"
| "category WledDevices = WLED"
| "category HueDevices = PhilipsHue"
| "category PicoDevices = Pico"
| "category Esp32s2Devices = ESP32_S2"
| "category EspDevices = ESP"

text \<open>A call as the source makes it: \<open>gotMessage\<close> is called by \<open>discoveryEventHandler\<close>
  only, on the list of the sighting's category.\<close>

fun dispatched :: "Call \<Rightarrow> bool" where
  "dispatched (CallGotMessage target message) = (type message = category target)"
| "dispatched c = True"

text \<open>Every list holds records of its own category only.\<close>

definition categorised :: "'d DiscoveryWrapper \<Rightarrow> bool" where
  "categorised s \<longleftrightarrow> (\<forall>target. \<forall>r\<in>set (deref target s). type r = category target)"

text \<open>The categories of the \<open>requestToScan\<close> signals in a list of signals, in order.\<close>

fun scanRequests :: "Signal list \<Rightarrow> Service list" where
  "scanRequests [] = []"
| "scanRequests (RequestToScan t # sigs) = t # scanRequests sigs"
| "scanRequests (FoundService t xs # sigs) = scanRequests sigs"

text \<open>What \<open>cleanUp\<close> announces for a list: nothing when no record has expired or when
  the last expired record carries the sentinel \<open>Unknown\<close>; otherwise one
  \<open>foundService\<close> with the category of the last expired record and the records left.\<close>

definition expiryNotice :: "'h Env \<Rightarrow> DiscoveryRecord list \<Rightarrow> Signal list" where
  "expiryNotice e xs =
     (let gone = filter (expired e) xs
      in if gone \<noteq> [] \<and> type (last gone) \<noteq> Unknown
         then [FoundService (type (last gone)) (filter (\<lambda>r. \<not> expired e r) xs)]
         else [])"

section \<open>Concrete surroundings and records\<close>

text \<open>A host bound to \<open>192.168.1.10\<close>, with a TTL window of 30 ticks, at time \<open>t\<close>;
  host addresses are compared as strings.\<close>

definition hostAt :: "nat \<Rightarrow> string Env" where
  "hostAt t = \<lparr>now = t, ttlWindow = 30, QHostAddress = (\<lambda>a. a), allAddresses = [''192.168.1.10'']\<rparr>"

text \<open>A sighting created at time \<open>t\<close> by a discovery source with the same TTL window.\<close>

definition sighting :: "Service \<Rightarrow> string \<Rightarrow> int \<Rightarrow> bool \<Rightarrow> nat \<Rightarrow> DiscoveryRecord" where
  "sighting c a p ex t = \<lparr>type = c, hostName = ''device'', address = a, port = p, isExists = ex, expiry = t + 30\<rparr>"

text \<open>A freshly constructed wrapper whose WLED list has been filled.\<close>

definition wledOnly :: "DiscoveryRecord list \<Rightarrow> nat DiscoveryWrapper" where
  "wledOnly xs = assign WledDevices xs construct"

text \<open>A factory that returns the device number 7.\<close>

definition factory7 :: "QJsonObject \<Rightarrow> nat" where
  "factory7 cfg = 7"

section \<open>Members, references and signals\<close>

lemma recEq_key: "recEq a b \<longleftrightarrow> key a = key b"
  by (auto simp: recEq_def key_def)

lemma deref_assign: "deref t' (assign t xs s) = (if t' = t then xs else deref t' s)"
  by (cases t; cases t') simp_all

lemma assign_deref_id: "assign t (deref t s) s = s"
  by (cases t) simp_all

lemma emitted_assign: "emitted (assign t xs s) = emitted s"
  by (cases t) simp_all

lemma backend_assign: "backend (assign t xs s) = backend s"
  by (cases t) simp_all

lemma serialDevice_assign: "serialDevice (assign t xs s) = serialDevice s"
  by (cases t) simp_all

lemma deref_emit: "deref t (emit sig s) = deref t s"
  by (cases t) (simp_all add: emit_def)

lemma emitted_emit: "emitted (emit sig s) = emitted s @ [sig]"
  by (simp add: emit_def)

lemma backend_emit: "backend (emit sig s) = backend s"
  by (simp add: emit_def)

lemma serialDevice_emit: "serialDevice (emit sig s) = serialDevice s"
  by (simp add: emit_def)

section \<open>Properties of cleanUp\<close>

lemma cleanUpLoop_fst: "fst (cleanUpLoop e rs a) = filter (\<lambda>r. \<not> expired e r) rs"
  by (induction rs arbitrary: a) (simp_all add: case_prod_beta)

lemma cleanUpLoop_snd:
  "snd (cleanUpLoop e rs a) =
     (if filter (expired e) rs = [] then a else type (last (filter (expired e) rs)))"
  by (induction rs arbitrary: a) (simp_all add: case_prod_beta)

lemma cleanUp_deref:
  "deref t' (cleanUp e t s) = (if t' = t then filter (\<lambda>r. \<not> expired e r) (deref t s) else deref t' s)"
  using cleanUpLoop_fst [of e "deref t s" Unknown]
  by (cases "cleanUpLoop e (deref t s) Unknown") (simp add: cleanUp_def Let_def deref_assign deref_emit)

lemma cleanUp_emitted:
  "emitted (cleanUp e t s) = emitted s @ expiryNotice e (deref t s)"
  using cleanUpLoop_fst [of e "deref t s" Unknown] cleanUpLoop_snd [of e "deref t s" Unknown]
  by (cases "cleanUpLoop e (deref t s) Unknown")
     (simp add: cleanUp_def Let_def expiryNotice_def deref_assign deref_emit emitted_emit emitted_assign)

lemma cleanUp_backend: "backend (cleanUp e t s) = backend s"
  by (auto simp: cleanUp_def Let_def backend_emit backend_assign split: prod.splits)

lemma cleanUp_serialDevice: "serialDevice (cleanUp e t s) = serialDevice s"
  by (auto simp: cleanUp_def Let_def serialDevice_emit serialDevice_assign split: prod.splits)

lemma cleanUp_none_expired:
  assumes "filter (expired e) (deref t s) = []"
  shows "cleanUp e t s = s"
proof -
  have "filter (\<lambda>r. \<not> expired e r) (deref t s) = deref t s"
    using assms by (simp add: filter_empty_conv)
  then show ?thesis
    using assms cleanUpLoop_fst [of e "deref t s" Unknown] cleanUpLoop_snd [of e "deref t s" Unknown]
    by (cases "cleanUpLoop e (deref t s) Unknown") (simp add: cleanUp_def Let_def assign_deref_id)
qed

section \<open>Properties of gotMessage\<close>

lemma refreshFirst_None: "refreshFirst e xs m = None \<longleftrightarrow> (\<forall>r\<in>set xs. \<not> recEq r m)"
  by (induction xs) auto

lemma key_resetTTL: "key (resetTTL e r) = key r"
  by (simp add: key_def resetTTL_def)

lemma refreshFirst_keys: "refreshFirst e xs m = Some ys \<Longrightarrow> map key ys = map key xs"
  by (induction xs arbitrary: ys) (auto simp: key_resetTTL split: if_splits)

lemma refreshFirst_nth:
  "refreshFirst e xs m = Some ys \<Longrightarrow>
     \<exists>i<length xs. recEq (xs ! i) m \<and> (\<forall>j<i. \<not> recEq (xs ! j) m) \<and> ys = xs[i := resetTTL e (xs ! i)]"
proof (induction xs arbitrary: ys)
  case Nil
  then show ?case by simp
next
  case (Cons r rs)
  show ?case
  proof (cases "recEq r m")
    case True
    with Cons.prems have "ys = (r # rs)[0 := resetTTL e ((r # rs) ! 0)]" by auto
    with True show ?thesis by (intro exI [of _ 0]) simp
  next
    case False
    with Cons.prems obtain zs where zs: "refreshFirst e rs m = Some zs" "ys = r # zs"
      by auto
    from Cons.IH [OF zs(1)] obtain i where i: "i < length rs" "recEq (rs ! i) m"
      "\<forall>j<i. \<not> recEq (rs ! j) m" "zs = rs[i := resetTTL e (rs ! i)]"
      by blast
    have "\<forall>j<Suc i. \<not> recEq ((r # rs) ! j) m"
      using False i(3) by (auto simp: less_Suc_eq_0_disj)
    with i zs(2) show ?thesis
      by (intro exI [of _ "Suc i"]) simp
  qed
qed

lemma length_filter_neq: "length (filter P xs) \<noteq> length xs \<longleftrightarrow> (\<exists>x\<in>set xs. \<not> P x)"
proof
  assume "length (filter P xs) \<noteq> length xs"
  then have "filter P xs \<noteq> xs" by auto
  then show "\<exists>x\<in>set xs. \<not> P x" by (simp add: filter_id_conv)
next
  assume "\<exists>x\<in>set xs. \<not> P x"
  then obtain x where "x \<in> set xs" "\<not> P x" by blast
  then have "length (filter P xs) < length xs" by (rule length_filter_less)
  then show "length (filter P xs) \<noteq> length xs" by simp
qed

lemma gotMessage_self:
  "QHostAddress e (address m) \<in> set (allAddresses e) \<Longrightarrow> gotMessage e t m s = s"
  by (simp add: gotMessage_def)

lemma gotMessage_refresh:
  assumes "QHostAddress e (address m) \<notin> set (allAddresses e)" "isExists m"
    "refreshFirst e (deref t s) m = Some ys"
  shows "gotMessage e t m s = assign t ys s"
  using assms by (simp add: gotMessage_def)

lemma gotMessage_append:
  assumes "QHostAddress e (address m) \<notin> set (allAddresses e)" "isExists m"
    "\<forall>r\<in>set (deref t s). \<not> recEq r m"
  shows "gotMessage e t m s = emit (FoundService (type m) (deref t s @ [m])) (assign t (deref t s @ [m]) s)"
proof -
  have "refreshFirst e (deref t s) m = None"
    using assms(3) by (simp add: refreshFirst_None)
  then show ?thesis
    using assms(1,2) by (simp add: gotMessage_def commit_def Let_def deref_assign)
qed

lemma gotMessage_remove:
  assumes "QHostAddress e (address m) \<notin> set (allAddresses e)" "\<not> isExists m"
  shows "gotMessage e t m s =
     (if \<exists>r\<in>set (deref t s). recEq r m
      then emit (FoundService (type m) (filter (\<lambda>r. \<not> recEq r m) (deref t s)))
             (assign t (filter (\<lambda>r. \<not> recEq r m) (deref t s)) s)
      else s)"
proof -
  have "length (deref t s) \<noteq> length (filter (\<lambda>r. \<not> recEq r m) (deref t s))
          \<longleftrightarrow> (\<exists>r\<in>set (deref t s). recEq r m)"
    using length_filter_neq [of "\<lambda>r. \<not> recEq r m" "deref t s"] by auto
  then show ?thesis
    using assms by (simp add: gotMessage_def commit_def Let_def deref_assign)
qed

section \<open>The claims about cleanUp and gotMessage\<close>

text \<open>
  C3. A sighting whose address is one of the local interface addresses is discarded by
  \<open>gotMessage\<close>, whatever its category and its \<open>isExists\<close> flag: the object, with all
  its lists and the signals emitted so far, is unchanged. The same holds for the slot
  \<open>discoveryEventHandler\<close> that dispatches to \<open>gotMessage\<close>.
\<close>

theorem gotMessage_self_filter:
  assumes "QHostAddress e (address message) \<in> set (allAddresses e)"
  shows "gotMessage e target message s = s \<and> discoveryEventHandler e message s = s"
  using assms by (simp add: discoveryEventHandler_def gotMessage_self)

text \<open>The host bound to \<open>192.168.1.10\<close> hears its own announcement.\<close>

theorem gotMessage_self_filter_witness:
  "QHostAddress (hostAt 0) (address (sighting WLED ''192.168.1.10'' 80 True 0)) \<in> set (allAddresses (hostAt 0))
   \<and> gotMessage (hostAt 0) WledDevices (sighting WLED ''192.168.1.10'' 80 True 0) (construct :: nat DiscoveryWrapper) = construct
   \<and> discoveryEventHandler (hostAt 0) (sighting WLED ''192.168.1.10'' 80 True 0) (construct :: nat DiscoveryWrapper) = construct"
proof -
  have h: "QHostAddress (hostAt 0) (address (sighting WLED ''192.168.1.10'' 80 True 0)) \<in> set (allAddresses (hostAt 0))"
    by (simp add: hostAt_def sighting_def)
  show ?thesis
    using h gotMessage_self_filter [OF h, of WledDevices "construct :: nat DiscoveryWrapper"] by simp
qed

text \<open>
  C4. For a sighting with \<open>isExists = true\<close> that is not self-filtered and has an equal
  record in the list, \<open>gotMessage\<close> only resets the TTL of the first equal record:
  the list keeps its length and the identity of the record at every position, and no
  signal is emitted.
\<close>

theorem gotMessage_refresh_existing:
  assumes "QHostAddress e (address message) \<notin> set (allAddresses e)"
    and "isExists message"
    and "r \<in> set (deref target s)" and "recEq r message"
  shows "(\<exists>i<length (deref target s).
            recEq (deref target s ! i) message
            \<and> (\<forall>j<i. \<not> recEq (deref target s ! j) message)
            \<and> gotMessage e target message s
                = assign target ((deref target s)[i := resetTTL e (deref target s ! i)]) s)
         \<and> length (deref target (gotMessage e target message s)) = length (deref target s)
         \<and> map key (deref target (gotMessage e target message s)) = map key (deref target s)
         \<and> emitted (gotMessage e target message s) = emitted s"
proof -
  have "refreshFirst e (deref target s) message \<noteq> None"
    using assms(3,4) by (auto simp: refreshFirst_None)
  then obtain ys where ys: "refreshFirst e (deref target s) message = Some ys"
    by blast
  have g: "gotMessage e target message s = assign target ys s"
    using assms(1,2) ys by (rule gotMessage_refresh)
  from refreshFirst_nth [OF ys] obtain i where i: "i < length (deref target s)"
    "recEq (deref target s ! i) message" "\<forall>j<i. \<not> recEq (deref target s ! j) message"
    "ys = (deref target s)[i := resetTTL e (deref target s ! i)]"
    by blast
  have k: "map key ys = map key (deref target s)"
    using ys by (rule refreshFirst_keys)
  have "\<exists>i<length (deref target s).
            recEq (deref target s ! i) message
            \<and> (\<forall>j<i. \<not> recEq (deref target s ! j) message)
            \<and> gotMessage e target message s
                = assign target ((deref target s)[i := resetTTL e (deref target s ! i)]) s"
    using i g by blast
  moreover have "length (deref target (gotMessage e target message s)) = length (deref target s)"
    using i(4) by (simp add: g deref_assign)
  moreover have "map key (deref target (gotMessage e target message s)) = map key (deref target s)"
    using k by (simp add: g deref_assign)
  moreover have "emitted (gotMessage e target message s) = emitted s"
    by (simp add: g emitted_assign)
  ultimately show ?thesis by blast
qed

text \<open>At time 50 the record of \<open>10.0.0.5:80\<close>, due at 30, is sighted again: the list
  holds the same record, now due at 80, and nothing is announced.\<close>

theorem gotMessage_refresh_existing_witness:
  "QHostAddress (hostAt 50) (address (sighting WLED ''10.0.0.5'' 80 True 50)) \<notin> set (allAddresses (hostAt 50))
   \<and> isExists (sighting WLED ''10.0.0.5'' 80 True 50)
   \<and> sighting WLED ''10.0.0.5'' 80 True 0 \<in> set (deref WledDevices (wledOnly [sighting WLED ''10.0.0.5'' 80 True 0]))
   \<and> recEq (sighting WLED ''10.0.0.5'' 80 True 0) (sighting WLED ''10.0.0.5'' 80 True 50)
   \<and> deref WledDevices (gotMessage (hostAt 50) WledDevices (sighting WLED ''10.0.0.5'' 80 True 50)
          (wledOnly [sighting WLED ''10.0.0.5'' 80 True 0]))
       = [(sighting WLED ''10.0.0.5'' 80 True 0)\<lparr>expiry := 80\<rparr>]
   \<and> length (deref WledDevices (gotMessage (hostAt 50) WledDevices (sighting WLED ''10.0.0.5'' 80 True 50)
          (wledOnly [sighting WLED ''10.0.0.5'' 80 True 0]))) = 1
   \<and> emitted (gotMessage (hostAt 50) WledDevices (sighting WLED ''10.0.0.5'' 80 True 50)
          (wledOnly [sighting WLED ''10.0.0.5'' 80 True 0])) = []"
proof -
  have h1: "QHostAddress (hostAt 50) (address (sighting WLED ''10.0.0.5'' 80 True 50)) \<notin> set (allAddresses (hostAt 50))"
    by (simp add: hostAt_def sighting_def)
  have h2: "isExists (sighting WLED ''10.0.0.5'' 80 True 50)"
    by (simp add: sighting_def)
  have h3: "sighting WLED ''10.0.0.5'' 80 True 0 \<in> set (deref WledDevices (wledOnly [sighting WLED ''10.0.0.5'' 80 True 0]))"
    by (simp add: wledOnly_def)
  have h4: "recEq (sighting WLED ''10.0.0.5'' 80 True 0) (sighting WLED ''10.0.0.5'' 80 True 50)"
    by (simp add: recEq_def sighting_def)
  show ?thesis
    using h1 h2 h3 h4 gotMessage_refresh_existing [OF h1 h2 h3 h4]
    by (auto simp: wledOnly_def construct_def resetTTL_def hostAt_def)
qed

text \<open>
  C5. For a sighting with \<open>isExists = false\<close> that is not self-filtered: when an equal
  record is in the list, \<open>gotMessage\<close> removes every record equal to it and emits one
  \<open>foundService\<close> with the sighting's category and the new list; when no equal record
  is in the list, the object is unchanged and nothing is emitted.
\<close>

theorem gotMessage_deregister:
  assumes "QHostAddress e (address message) \<notin> set (allAddresses e)"
    and "\<not> isExists message"
  shows "((\<exists>r\<in>set (deref target s). recEq r message) \<longrightarrow>
            deref target (gotMessage e target message s)
              = filter (\<lambda>r. \<not> recEq r message) (deref target s)
            \<and> (\<forall>r\<in>set (deref target (gotMessage e target message s)). \<not> recEq r message)
            \<and> emitted (gotMessage e target message s)
              = emitted s @ [FoundService (type message) (deref target (gotMessage e target message s))])
         \<and> ((\<forall>r\<in>set (deref target s). \<not> recEq r message) \<longrightarrow> gotMessage e target message s = s)"
  using gotMessage_remove [OF assms, of target s]
  by (auto simp: deref_emit deref_assign emitted_emit emitted_assign)

text \<open>A deregistration of \<open>10.0.0.5:80\<close> empties the list that holds it and is announced
  once; a deregistration of \<open>10.0.0.9:80\<close>, which is not in the list, changes nothing.\<close>

theorem gotMessage_deregister_witness:
  "QHostAddress (hostAt 5) (address (sighting WLED ''10.0.0.5'' 80 False 5)) \<notin> set (allAddresses (hostAt 5))
   \<and> \<not> isExists (sighting WLED ''10.0.0.5'' 80 False 5)
   \<and> deref WledDevices (gotMessage (hostAt 5) WledDevices (sighting WLED ''10.0.0.5'' 80 False 5)
          (wledOnly [sighting WLED ''10.0.0.5'' 80 True 0])) = []
   \<and> emitted (gotMessage (hostAt 5) WledDevices (sighting WLED ''10.0.0.5'' 80 False 5)
          (wledOnly [sighting WLED ''10.0.0.5'' 80 True 0])) = [FoundService WLED []]
   \<and> gotMessage (hostAt 5) WledDevices (sighting WLED ''10.0.0.9'' 80 False 5)
          (wledOnly [sighting WLED ''10.0.0.5'' 80 True 0]) = wledOnly [sighting WLED ''10.0.0.5'' 80 True 0]"
proof -
  have h1: "QHostAddress (hostAt 5) (address (sighting WLED ''10.0.0.5'' 80 False 5)) \<notin> set (allAddresses (hostAt 5))"
    by (simp add: hostAt_def sighting_def)
  have h2: "\<not> isExists (sighting WLED ''10.0.0.5'' 80 False 5)"
    by (simp add: sighting_def)
  have h3: "QHostAddress (hostAt 5) (address (sighting WLED ''10.0.0.9'' 80 False 5)) \<notin> set (allAddresses (hostAt 5))"
    by (simp add: hostAt_def sighting_def)
  have h4: "\<not> isExists (sighting WLED ''10.0.0.9'' 80 False 5)"
    by (simp add: sighting_def)
  show ?thesis
    using h1 h2 gotMessage_deregister [OF h1 h2, of WledDevices "wledOnly [sighting WLED ''10.0.0.5'' 80 True 0]"]
      gotMessage_deregister [OF h3 h4, of WledDevices "wledOnly [sighting WLED ''10.0.0.5'' 80 True 0]"]
    by (simp add: wledOnly_def construct_def recEq_def sighting_def)
qed

section \<open>The delivered scan request\<close>

lemma requestToScanHandler_deref: "deref x (requestToScanHandler factory t s) = deref x s"
  by (cases x) (simp_all add: requestToScanHandler_def Let_def split: option.splits)

lemma requestToScanHandler_emitted: "emitted (requestToScanHandler factory t s) = emitted s"
  by (simp add: requestToScanHandler_def Let_def split: option.splits)

lemma requestToScanHandler_other:
  "t \<noteq> SerialPort \<Longrightarrow> requestToScanHandler factory t s = s"
  by (simp add: requestToScanHandler_def)

lemma requestToScanHandler_serial:
  "serialDevice (requestToScanHandler factory SerialPort s)
     = Some (case serialDevice s of None \<Rightarrow> factory deviceConfig | Some d \<Rightarrow> d)
   \<and> backend (requestToScanHandler factory SerialPort s) = backend s @
       (case serialDevice s of
          None \<Rightarrow> [Construct deviceConfig, Discover (factory deviceConfig) params]
        | Some d \<Rightarrow> [Discover d params])"
  by (simp add: requestToScanHandler_def Let_def split: option.splits)

lemma emitRequestToScan_deref: "deref x (emitRequestToScan factory t s) = deref x s"
  by (simp add: emitRequestToScan_def requestToScanHandler_deref deref_emit)

lemma emitRequestToScan_emitted:
  "emitted (emitRequestToScan factory t s) = emitted s @ [RequestToScan t]"
  by (simp add: emitRequestToScan_def requestToScanHandler_emitted emitted_emit)

lemma emitRequestToScan_other:
  "t \<noteq> SerialPort \<Longrightarrow> emitRequestToScan factory t s = emit (RequestToScan t) s"
  by (simp add: emitRequestToScan_def requestToScanHandler_other)

lemma emitRequestToScan_serial:
  "serialDevice (emitRequestToScan factory SerialPort s)
     = Some (case serialDevice s of None \<Rightarrow> factory deviceConfig | Some d \<Rightarrow> d)
   \<and> backend (emitRequestToScan factory SerialPort s) = backend s @
       (case serialDevice s of
          None \<Rightarrow> [Construct deviceConfig, Discover (factory deviceConfig) params]
        | Some d \<Rightarrow> [Discover d params])"
  using requestToScanHandler_serial [of factory "emit (RequestToScan SerialPort) s"]
  by (simp add: emitRequestToScan_def serialDevice_emit backend_emit)

section \<open>The claims about the public interface\<close>

lemma scanRequests_append: "scanRequests (xs @ ys) = scanRequests xs @ scanRequests ys"
  by (induction xs rule: scanRequests.induct) simp_all

lemma scanRequests_expiryNotice: "scanRequests (expiryNotice e xs) = []"
  by (simp add: expiryNotice_def Let_def)

text \<open>
  C6. \<open>getWLED\<close> and \<open>getPhilipsHUE\<close> first clean their list, then emit one
  \<open>requestToScan\<close> for their category, after the notification of \<open>cleanUp\<close> if there
  is one, and return the cleaned list: the list the object holds after the call, with no
  expired record in it. The signals emitted during the call are the ones after the
  first \<open>length (emitted s)\<close> signals.
\<close>

theorem get_cleans_then_requests_scan:
  "fst (getWLED factory e s) = filter (\<lambda>r. \<not> expired e r) (wledDevices s)
   \<and> wledDevices (snd (getWLED factory e s)) = fst (getWLED factory e s)
   \<and> (\<forall>r\<in>set (fst (getWLED factory e s)). \<not> expired e r)
   \<and> emitted (snd (getWLED factory e s)) = emitted s @ expiryNotice e (wledDevices s) @ [RequestToScan WLED]
   \<and> scanRequests (drop (length (emitted s)) (emitted (snd (getWLED factory e s)))) = [WLED]
   \<and> fst (getPhilipsHUE factory e s) = filter (\<lambda>r. \<not> expired e r) (hueDevices s)
   \<and> hueDevices (snd (getPhilipsHUE factory e s)) = fst (getPhilipsHUE factory e s)
   \<and> (\<forall>r\<in>set (fst (getPhilipsHUE factory e s)). \<not> expired e r)
   \<and> emitted (snd (getPhilipsHUE factory e s)) = emitted s @ expiryNotice e (hueDevices s) @ [RequestToScan PhilipsHue]
   \<and> scanRequests (drop (length (emitted s)) (emitted (snd (getPhilipsHUE factory e s)))) = [PhilipsHue]"
proof -
  have w: "wledDevices (emitRequestToScan factory WLED (cleanUp e WledDevices s))
             = filter (\<lambda>r. \<not> expired e r) (wledDevices s)"
    using emitRequestToScan_deref [of WledDevices factory WLED "cleanUp e WledDevices s"]
      cleanUp_deref [of WledDevices e WledDevices s] by simp
  have h: "hueDevices (emitRequestToScan factory PhilipsHue (cleanUp e HueDevices s))
             = filter (\<lambda>r. \<not> expired e r) (hueDevices s)"
    using emitRequestToScan_deref [of HueDevices factory PhilipsHue "cleanUp e HueDevices s"]
      cleanUp_deref [of HueDevices e HueDevices s] by simp
  have we: "emitted (snd (getWLED factory e s)) = emitted s @ expiryNotice e (wledDevices s) @ [RequestToScan WLED]"
    using cleanUp_emitted [of e WledDevices s]
    by (simp add: getWLED_def Let_def emitRequestToScan_emitted)
  have he: "emitted (snd (getPhilipsHUE factory e s)) = emitted s @ expiryNotice e (hueDevices s) @ [RequestToScan PhilipsHue]"
    using cleanUp_emitted [of e HueDevices s]
    by (simp add: getPhilipsHUE_def Let_def emitRequestToScan_emitted)
  have "fst (getWLED factory e s) = filter (\<lambda>r. \<not> expired e r) (wledDevices s)"
    using w by (simp add: getWLED_def Let_def)
  moreover have "wledDevices (snd (getWLED factory e s)) = fst (getWLED factory e s)"
    by (simp add: getWLED_def Let_def)
  moreover have "\<forall>r\<in>set (fst (getWLED factory e s)). \<not> expired e r"
    using w by (simp add: getWLED_def Let_def)
  moreover note we
  moreover have "scanRequests (drop (length (emitted s)) (emitted (snd (getWLED factory e s)))) = [WLED]"
    by (simp add: we scanRequests_append scanRequests_expiryNotice)
  moreover have "fst (getPhilipsHUE factory e s) = filter (\<lambda>r. \<not> expired e r) (hueDevices s)"
    using h by (simp add: getPhilipsHUE_def Let_def)
  moreover have "hueDevices (snd (getPhilipsHUE factory e s)) = fst (getPhilipsHUE factory e s)"
    by (simp add: getPhilipsHUE_def Let_def)
  moreover have "\<forall>r\<in>set (fst (getPhilipsHUE factory e s)). \<not> expired e r"
    using h by (simp add: getPhilipsHUE_def Let_def)
  moreover note he
  moreover have "scanRequests (drop (length (emitted s)) (emitted (snd (getPhilipsHUE factory e s)))) = [PhilipsHue]"
    by (simp add: he scanRequests_append scanRequests_expiryNotice)
  ultimately show ?thesis by blast
qed

text \<open>At time 100, a WLED list with one expired and one live record: the live record is
  returned, after one notification and one scan request.\<close>

theorem get_cleans_then_requests_scan_witness:
  "fst (getWLED factory7 (hostAt 100) (wledOnly [sighting WLED ''10.0.0.5'' 80 True 0, sighting WLED ''10.0.0.6'' 80 True 90]))
     = [sighting WLED ''10.0.0.6'' 80 True 90]
   \<and> emitted (snd (getWLED factory7 (hostAt 100) (wledOnly [sighting WLED ''10.0.0.5'' 80 True 0, sighting WLED ''10.0.0.6'' 80 True 90])))
     = [FoundService WLED [sighting WLED ''10.0.0.6'' 80 True 90], RequestToScan WLED]
   \<and> fst (getPhilipsHUE factory7 (hostAt 100) (wledOnly [sighting WLED ''10.0.0.5'' 80 True 0])) = []
   \<and> emitted (snd (getPhilipsHUE factory7 (hostAt 100) (wledOnly [sighting WLED ''10.0.0.5'' 80 True 0])))
     = [RequestToScan PhilipsHue]"
  using get_cleans_then_requests_scan [of factory7 "hostAt 100"
      "wledOnly [sighting WLED ''10.0.0.5'' 80 True 0, sighting WLED ''10.0.0.6'' 80 True 90]"]
    get_cleans_then_requests_scan [of factory7 "hostAt 100" "wledOnly [sighting WLED ''10.0.0.5'' 80 True 0]"]
  by (simp add: wledOnly_def construct_def expiryNotice_def expired_def hostAt_def sighting_def)

lemma requestServicesScan_deref:
  "deref t (requestServicesScan factory e s) = filter (\<lambda>r. \<not> expired e r) (deref t s)"
  unfolding requestServicesScan_def Let_def
  by (cases t) (simp_all add: emitRequestToScan_deref cleanUp_deref del: deref.simps)

lemma requestServicesScan_emitted:
  "emitted (requestServicesScan factory e s) = emitted s
     @ expiryNotice e (wledDevices s) @ [RequestToScan WLED]
     @ expiryNotice e (hueDevices s) @ [RequestToScan PhilipsHue]
     @ expiryNotice e (hyperhdrSessions s) @ [RequestToScan HyperHDR]
     @ expiryNotice e (esp32s2Devices s) @ expiryNotice e (espDevices s)
     @ expiryNotice e (picoDevices s) @ [RequestToScan SerialPort]"
  unfolding requestServicesScan_def Let_def
  by (simp add: emitRequestToScan_emitted cleanUp_emitted emitRequestToScan_deref cleanUp_deref
      del: deref.simps) simp

lemma requestServicesScan_backend:
  "serialDevice (requestServicesScan factory e s)
     = Some (case serialDevice s of None \<Rightarrow> factory deviceConfig | Some d \<Rightarrow> d)
   \<and> backend (requestServicesScan factory e s) = backend s @
       (case serialDevice s of
          None \<Rightarrow> [Construct deviceConfig, Discover (factory deviceConfig) params]
        | Some d \<Rightarrow> [Discover d params])"
  unfolding requestServicesScan_def Let_def
  by (simp add: emitRequestToScan_serial emitRequestToScan_other backend_emit serialDevice_emit
      cleanUp_backend cleanUp_serialDevice)

text \<open>
  C7. \<open>requestServicesScan\<close> cleans all six lists and emits, besides the notifications
  of \<open>cleanUp\<close>, exactly four \<open>requestToScan\<close> signals, in this order: WLED, PhilipsHue,
  HyperHDR, SerialPort. No \<open>requestToScan\<close> is emitted for Pico, ESP or ESP32_S2.
\<close>

theorem requestServicesScan_cleans_all_and_requests_four:
  "(\<forall>target. deref target (requestServicesScan factory e s) = filter (\<lambda>r. \<not> expired e r) (deref target s))
   \<and> emitted (requestServicesScan factory e s) = emitted s
        @ expiryNotice e (wledDevices s) @ [RequestToScan WLED]
        @ expiryNotice e (hueDevices s) @ [RequestToScan PhilipsHue]
        @ expiryNotice e (hyperhdrSessions s) @ [RequestToScan HyperHDR]
        @ expiryNotice e (esp32s2Devices s) @ expiryNotice e (espDevices s)
        @ expiryNotice e (picoDevices s) @ [RequestToScan SerialPort]
   \<and> scanRequests (drop (length (emitted s)) (emitted (requestServicesScan factory e s)))
        = [WLED, PhilipsHue, HyperHDR, SerialPort]"
  by (simp add: requestServicesScan_deref requestServicesScan_emitted scanRequests_append
      scanRequests_expiryNotice)

text \<open>At time 100, with an expired record in the WLED list and one in the Pico list.\<close>

theorem requestServicesScan_cleans_all_and_requests_four_witness:
  "deref PicoDevices (requestServicesScan factory7 (hostAt 100)
      (assign PicoDevices [sighting Pico ''COM3'' 0 True 0] (wledOnly [sighting WLED ''10.0.0.5'' 80 True 0]))) = []
   \<and> deref WledDevices (requestServicesScan factory7 (hostAt 100)
      (assign PicoDevices [sighting Pico ''COM3'' 0 True 0] (wledOnly [sighting WLED ''10.0.0.5'' 80 True 0]))) = []
   \<and> emitted (requestServicesScan factory7 (hostAt 100)
      (assign PicoDevices [sighting Pico ''COM3'' 0 True 0] (wledOnly [sighting WLED ''10.0.0.5'' 80 True 0])))
     = [FoundService WLED [], RequestToScan WLED, RequestToScan PhilipsHue, RequestToScan HyperHDR,
        FoundService Pico [], RequestToScan SerialPort]"
  using requestServicesScan_cleans_all_and_requests_four [of factory7 "hostAt 100"
      "assign PicoDevices [sighting Pico ''COM3'' 0 True 0] (wledOnly [sighting WLED ''10.0.0.5'' 80 True 0])"]
  by (simp add: wledOnly_def construct_def expiryNotice_def expired_def hostAt_def sighting_def)

text \<open>
  C8. \<open>getHyperHDRServices\<close> returns the list of HyperHDR sessions as it is, and
  \<open>getAllServices\<close> returns the six lists one after the other (HyperHDR, ESP32_S2, ESP,
  PhilipsHue, Pico, WLED); both leave the object as it was: no list is cleaned or
  changed and no signal is emitted. With one record each in the HyperHDR, PhilipsHue and
  WLED lists and the other lists empty, \<open>getAllServices\<close> returns these three records.
\<close>

theorem getters_are_pure_reads:
  "getHyperHDRServices s = (hyperhdrSessions s, s)
   \<and> getAllServices s =
        (hyperhdrSessions s @ esp32s2Devices s @ espDevices s @ hueDevices s @ picoDevices s
           @ wledDevices s, s)
   \<and> (hyperhdrSessions s = [h] \<and> hueDevices s = [p] \<and> wledDevices s = [w]
        \<and> esp32s2Devices s = [] \<and> espDevices s = [] \<and> picoDevices s = []
      \<longrightarrow> fst (getAllServices s) = [h, p, w] \<and> length (fst (getAllServices s)) = 3)"
  by (simp add: getHyperHDRServices_def getAllServices_def)

text \<open>One record each in the WLED, PhilipsHue and HyperHDR lists; the WLED record has
  expired at time 100 and is returned all the same.\<close>

theorem getters_are_pure_reads_witness:
  "expired (hostAt 100) (sighting WLED ''10.0.0.5'' 80 True 0)
   \<and> fst (getAllServices (assign HyperhdrSessions [sighting HyperHDR ''10.0.0.7'' 8090 True 90]
        (assign HueDevices [sighting PhilipsHue ''10.0.0.6'' 443 True 90]
          (wledOnly [sighting WLED ''10.0.0.5'' 80 True 0]))))
     = [sighting HyperHDR ''10.0.0.7'' 8090 True 90, sighting PhilipsHue ''10.0.0.6'' 443 True 90,
        sighting WLED ''10.0.0.5'' 80 True 0]
   \<and> snd (getAllServices (assign HyperhdrSessions [sighting HyperHDR ''10.0.0.7'' 8090 True 90]
        (assign HueDevices [sighting PhilipsHue ''10.0.0.6'' 443 True 90]
          (wledOnly [sighting WLED ''10.0.0.5'' 80 True 0]))))
     = assign HyperhdrSessions [sighting HyperHDR ''10.0.0.7'' 8090 True 90]
        (assign HueDevices [sighting PhilipsHue ''10.0.0.6'' 443 True 90]
          (wledOnly [sighting WLED ''10.0.0.5'' 80 True 0]))"
  using getters_are_pure_reads [of "assign HyperhdrSessions [sighting HyperHDR ''10.0.0.7'' 8090 True 90]
        (assign HueDevices [sighting PhilipsHue ''10.0.0.6'' 443 True 90]
          (wledOnly [sighting WLED ''10.0.0.5'' 80 True 0]))"
      "sighting HyperHDR ''10.0.0.7'' 8090 True 90" "sighting PhilipsHue ''10.0.0.6'' 443 True 90"
      "sighting WLED ''10.0.0.5'' 80 True 0"]
  by (simp add: wledOnly_def construct_def expired_def hostAt_def sighting_def)

section \<open>The claims about the slots\<close>

text \<open>
  C10. For a sighting whose category is none of HyperHDR, WLED, PhilipsHue, Pico,
  ESP32_S2 and ESP, \<open>discoveryEventHandler\<close> does nothing: the whole object, with every
  list and the signals emitted so far, is unchanged.
\<close>

theorem discoveryEventHandler_ignores_other_categories:
  assumes "type message \<notin> {HyperHDR, WLED, PhilipsHue, Pico, ESP32_S2, ESP}"
  shows "discoveryEventHandler e message s = s"
  using assms by (simp add: discoveryEventHandler_def)

text \<open>Sightings of the categories \<open>Unknown\<close> and \<open>SerialPort\<close>, from an address that is
  not the host's own, with \<open>isExists = true\<close>.\<close>

theorem discoveryEventHandler_ignores_other_categories_witness:
  "type (sighting Unknown ''10.0.0.5'' 80 True 0) \<notin> {HyperHDR, WLED, PhilipsHue, Pico, ESP32_S2, ESP}
   \<and> type (sighting SerialPort ''10.0.0.5'' 80 True 0) \<notin> {HyperHDR, WLED, PhilipsHue, Pico, ESP32_S2, ESP}
   \<and> discoveryEventHandler (hostAt 0) (sighting Unknown ''10.0.0.5'' 80 True 0) (wledOnly []) = wledOnly []
   \<and> discoveryEventHandler (hostAt 0) (sighting SerialPort ''10.0.0.5'' 80 True 0) (wledOnly []) = wledOnly []"
proof -
  have h1: "type (sighting Unknown ''10.0.0.5'' 80 True 0) \<notin> {HyperHDR, WLED, PhilipsHue, Pico, ESP32_S2, ESP}"
    by (simp add: sighting_def)
  have h2: "type (sighting SerialPort ''10.0.0.5'' 80 True 0) \<notin> {HyperHDR, WLED, PhilipsHue, Pico, ESP32_S2, ESP}"
    by (simp add: sighting_def)
  show ?thesis
    using h1 h2 discoveryEventHandler_ignores_other_categories [OF h1, of "hostAt 0" "wledOnly []"]
      discoveryEventHandler_ignores_other_categories [OF h2, of "hostAt 0" "wledOnly []"]
    by simp
qed

section \<open>The serial backend\<close>

lemma gotMessage_backend:
  "backend (gotMessage e t m s) = backend s \<and> serialDevice (gotMessage e t m s) = serialDevice s"
  by (simp add: gotMessage_def commit_def Let_def backend_emit backend_assign serialDevice_emit
      serialDevice_assign split: option.splits)

lemma discoveryEventHandler_backend:
  "backend (discoveryEventHandler e m s) = backend s
   \<and> serialDevice (discoveryEventHandler e m s) = serialDevice s"
  by (simp add: discoveryEventHandler_def gotMessage_backend)

lemma getters_backend:
  "backend (snd (getWLED factory e s)) = backend s
   \<and> serialDevice (snd (getWLED factory e s)) = serialDevice s
   \<and> backend (snd (getPhilipsHUE factory e s)) = backend s
   \<and> serialDevice (snd (getPhilipsHUE factory e s)) = serialDevice s"
  by (simp add: getWLED_def getPhilipsHUE_def Let_def emitRequestToScan_other backend_emit
      serialDevice_emit cleanUp_backend cleanUp_serialDevice)

lemma call_backend_other:
  assumes "\<not> serialScan (snd c)"
  shows "backend (call factory c s) = backend s \<and> serialDevice (call factory c s) = serialDevice s"
proof (cases c)
  case (Pair e k)
  with assms show ?thesis
    by (cases k)
       (simp_all add: cleanUp_backend cleanUp_serialDevice gotMessage_backend getters_backend
          getHyperHDRServices_def getAllServices_def discoveryEventHandler_backend
          requestToScanHandler_other)
qed

lemma call_backend_serial:
  assumes "serialScan (snd c)"
  shows "serialDevice (call factory c s)
     = Some (case serialDevice s of None \<Rightarrow> factory deviceConfig | Some d \<Rightarrow> d)
   \<and> backend (call factory c s) = backend s @
       (case serialDevice s of
          None \<Rightarrow> [Construct deviceConfig, Discover (factory deviceConfig) params]
        | Some d \<Rightarrow> [Discover d params])"
proof (cases c)
  case (Pair e k)
  with assms show ?thesis
    by (cases k) (simp_all add: requestToScanHandler_serial requestServicesScan_backend)
qed

lemma run_backend:
  "serialDevice (run factory steps s) =
     (case serialDevice s of
        Some d \<Rightarrow> Some d
      | None \<Rightarrow> if serialScans steps = 0 then None else Some (factory deviceConfig))
   \<and> backend (run factory steps s) = backend s @
     (case serialDevice s of
        Some d \<Rightarrow> replicate (serialScans steps) (Discover d params)
      | None \<Rightarrow> if serialScans steps = 0 then []
                else Construct deviceConfig
                       # replicate (serialScans steps) (Discover (factory deviceConfig) params))"
proof (induction steps arbitrary: s)
  case Nil
  show ?case by (simp add: serialScans_def split: option.splits)
next
  case (Cons c cs)
  show ?case
  proof (cases "serialScan (snd c)")
    case False
    then have n: "serialScans (c # cs) = serialScans cs"
      by (simp add: serialScans_def)
    from False have "backend (call factory c s) = backend s"
      and "serialDevice (call factory c s) = serialDevice s"
      using call_backend_other [of c factory s] by simp_all
    with Cons.IH [of "call factory c s"] show ?thesis by (simp add: n cong: option.case_cong)
  next
    case True
    then have n: "serialScans (c # cs) = Suc (serialScans cs)"
      by (simp add: serialScans_def)
    show ?thesis
    proof (cases "serialDevice s")
      case None
      from call_backend_serial [OF True, of factory s] Cons.IH [of "call factory c s"] None
      show ?thesis
        by (simp add: n replicate_app_Cons_same)
    next
      case (Some d)
      from call_backend_serial [OF True, of factory s] Cons.IH [of "call factory c s"] Some
      show ?thesis
        by (simp add: n replicate_app_Cons_same)
    qed
  qed
qed

lemma destroy_backend:
  "serialDevice (destroy s) = None
   \<and> backend (destroy s) = backend s @ (case serialDevice s of Some d \<Rightarrow> [Delete d] | None \<Rightarrow> [])"
  by (simp add: destroy_def Let_def split: option.splits)

text \<open>
  C9. In every sequence of steps of a freshly constructed wrapper in which a
  \<open>SerialPort\<close> scan request reaches \<open>requestToScanHandler\<close> \<open>n\<close> times (by a call of
  the slot, or by the \<open>requestToScan(SerialPort)\<close> that \<open>requestServicesScan\<close> emits),
  the backend sees: nothing when \<open>n = 0\<close>; otherwise one call of the factory, with the
  configuration \<open>"type": "adalight"\<close>, followed by \<open>n\<close> calls of \<open>discover\<close> with an
  empty parameter object, all on the device that the factory returned. Scan requests
  for other categories and all other member functions make no backend call. The device
  is never deleted in such a sequence; the destructor deletes it, once, and nulls the
  pointer.
\<close>

theorem serial_backend_constructed_once:
  "backend (run factory steps construct) =
     (if serialScans steps = 0 then []
      else Construct [(''type'', ''adalight'')]
             # replicate (serialScans steps) (Discover (factory [(''type'', ''adalight'')]) []))
   \<and> serialDevice (run factory steps construct) =
     (if serialScans steps = 0 then None else Some (factory [(''type'', ''adalight'')]))
   \<and> backend (destroy (run factory steps construct)) = backend (run factory steps construct) @
     (if serialScans steps = 0 then [] else [Delete (factory [(''type'', ''adalight'')])])
   \<and> serialDevice (destroy (run factory steps construct)) = None"
proof -
  have cfg: "deviceConfig = [(''type'', ''adalight'')]" "params = []"
    by (simp_all add: deviceConfig_def params_def)
  have init: "serialDevice (construct :: 'a DiscoveryWrapper) = None"
    "backend (construct :: 'a DiscoveryWrapper) = []"
    by (simp_all add: construct_def)
  from run_backend [of factory steps construct]
  have r: "serialDevice (run factory steps construct) =
       (if serialScans steps = 0 then None else Some (factory [(''type'', ''adalight'')]))"
    "backend (run factory steps construct) =
       (if serialScans steps = 0 then []
        else Construct [(''type'', ''adalight'')]
               # replicate (serialScans steps) (Discover (factory [(''type'', ''adalight'')]) []))"
    by (simp_all add: init cfg)
  from destroy_backend [of "run factory steps construct"]
  have d: "serialDevice (destroy (run factory steps construct)) = None"
    "backend (destroy (run factory steps construct)) = backend (run factory steps construct) @
       (if serialScans steps = 0 then [] else [Delete (factory [(''type'', ''adalight'')])])"
    by (simp_all add: r(1))
  from r d show ?thesis by blast
qed

text \<open>A WLED scan request, a call of \<open>requestServicesScan\<close>, a sighting and a
  \<open>SerialPort\<close> scan request: one construction, two discoveries on device 7. A call of
  \<open>getWLED\<close> alone makes no backend call.\<close>

theorem serial_backend_constructed_once_witness:
  "backend (run factory7
      [(hostAt 0, CallRequestToScanHandler WLED), (hostAt 1, CallRequestServicesScan),
       (hostAt 2, CallDiscoveryEventHandler (sighting WLED ''10.0.0.5'' 80 True 2)),
       (hostAt 3, CallRequestToScanHandler SerialPort)] construct)
     = [Construct [(''type'', ''adalight'')], Discover 7 [], Discover 7 []]
   \<and> backend (destroy (run factory7
      [(hostAt 0, CallRequestToScanHandler WLED), (hostAt 1, CallRequestServicesScan),
       (hostAt 2, CallDiscoveryEventHandler (sighting WLED ''10.0.0.5'' 80 True 2)),
       (hostAt 3, CallRequestToScanHandler SerialPort)] construct))
     = [Construct [(''type'', ''adalight'')], Discover 7 [], Discover 7 [], Delete 7]
   \<and> backend (run factory7 [(hostAt 0, CallGetWLED)] construct) = []"
  using serial_backend_constructed_once [of factory7
      "[(hostAt 0, CallRequestToScanHandler WLED), (hostAt 1, CallRequestServicesScan),
        (hostAt 2, CallDiscoveryEventHandler (sighting WLED ''10.0.0.5'' 80 True 2)),
        (hostAt 3, CallRequestToScanHandler SerialPort)]"]
    serial_backend_constructed_once [of factory7 "[(hostAt 0, CallGetWLED)]"]
  by (simp add: serialScans_def factory7_def numeral_2_eq_2)

section \<open>The invariant of the lists\<close>

lemma uniqueRecords_construct: "uniqueRecords construct"
proof -
  have "deref t (construct :: 'a DiscoveryWrapper) = []" for t
    by (cases t) (simp_all add: construct_def)
  then show ?thesis by (simp add: uniqueRecords_def)
qed

lemma uniqueRecords_assign:
  "uniqueRecords s \<Longrightarrow> distinct (map key xs) \<Longrightarrow> uniqueRecords (assign t xs s)"
  by (simp add: uniqueRecords_def deref_assign)

lemma uniqueRecords_emit: "uniqueRecords (emit sig s) = uniqueRecords s"
  by (simp add: uniqueRecords_def deref_emit)

lemma uniqueRecords_cleanUp: "uniqueRecords s \<Longrightarrow> uniqueRecords (cleanUp e t s)"
  by (simp add: uniqueRecords_def cleanUp_deref distinct_map_filter)

lemma distinct_keys_append:
  assumes "distinct (map key xs)" "\<forall>r\<in>set xs. \<not> recEq r m"
  shows "distinct (map key (xs @ [m]))"
  using assms by (auto simp: recEq_key)

lemma uniqueRecords_gotMessage:
  assumes "uniqueRecords s"
  shows "uniqueRecords (gotMessage e t m s)"
proof (cases "QHostAddress e (address m) \<in> set (allAddresses e)")
  case True
  with assms show ?thesis by (simp add: gotMessage_self)
next
  case False
  have d: "distinct (map key (deref t s))"
    using assms by (simp add: uniqueRecords_def)
  show ?thesis
  proof (cases "isExists m")
    case True
    show ?thesis
    proof (cases "refreshFirst e (deref t s) m")
      case None
      then have no: "\<forall>r\<in>set (deref t s). \<not> recEq r m"
        by (simp add: refreshFirst_None)
      have "distinct (map key (deref t s @ [m]))"
        using d no by (rule distinct_keys_append)
      with assms show ?thesis
        by (simp add: gotMessage_append [OF False True no] uniqueRecords_emit uniqueRecords_assign)
    next
      case (Some ys)
      then have "distinct (map key ys)"
        using d by (simp add: refreshFirst_keys)
      with assms show ?thesis
        by (simp add: gotMessage_refresh [OF False True Some] uniqueRecords_assign)
    qed
  next
    case ex: False
    have "distinct (map key (filter (\<lambda>r. \<not> recEq r m) (deref t s)))"
      using d by (rule distinct_map_filter)
    with assms show ?thesis
      by (simp add: gotMessage_remove [OF False ex] uniqueRecords_emit uniqueRecords_assign)
  qed
qed

lemma uniqueRecords_requestToScanHandler:
  "uniqueRecords (requestToScanHandler factory t s) = uniqueRecords s"
  by (simp add: uniqueRecords_def requestToScanHandler_deref)

lemma uniqueRecords_emitRequestToScan:
  "uniqueRecords (emitRequestToScan factory t s) = uniqueRecords s"
  by (simp add: uniqueRecords_def emitRequestToScan_deref)

lemma uniqueRecords_call:
  assumes "uniqueRecords s"
  shows "uniqueRecords (call factory c s)"
proof (cases c)
  case (Pair e k)
  have "uniqueRecords (requestServicesScan factory e s)"
    using assms by (simp add: uniqueRecords_def requestServicesScan_deref distinct_map_filter)
  moreover have "uniqueRecords (discoveryEventHandler e m s)" for m
    using assms by (simp add: discoveryEventHandler_def uniqueRecords_gotMessage)
  ultimately show ?thesis
    using assms Pair
    by (cases k)
       (simp_all add: uniqueRecords_cleanUp uniqueRecords_gotMessage getPhilipsHUE_def getWLED_def
          Let_def uniqueRecords_emitRequestToScan getHyperHDRServices_def getAllServices_def
          uniqueRecords_requestToScanHandler)
qed

lemma uniqueRecords_run: "uniqueRecords s \<Longrightarrow> uniqueRecords (run factory steps s)"
  by (induction steps arbitrary: s) (simp_all add: uniqueRecords_call)

lemma run_append: "run factory (xs @ ys) s = run factory ys (run factory xs s)"
  by (induction xs arbitrary: s) simp_all

text \<open>
  C1, as amended. After every sequence of steps of a freshly constructed wrapper (calls
  of \<open>cleanUp\<close> and \<open>gotMessage\<close> on any of the six lists, the public member functions and
  the two slots), no list holds two equal records. A list holds no expired record right
  after a \<open>cleanUp\<close> of that list; \<open>gotMessage\<close> removes no record for its age, so that
  between two \<open>cleanUp\<close> calls a list may hold expired records.
\<close>

theorem lists_hold_no_two_equal_records:
  "(\<forall>i j. i < j \<and> j < length (deref target (run factory steps construct))
       \<longrightarrow> \<not> recEq (deref target (run factory steps construct) ! i)
                   (deref target (run factory steps construct) ! j))
   \<and> (\<forall>r\<in>set (deref target (run factory (steps @ [(e, CallCleanUp target)]) construct)).
         \<not> expired e r)"
proof (intro conjI allI impI ballI)
  fix i j
  assume ij: "i < j \<and> j < length (deref target (run factory steps construct))"
  have "uniqueRecords (run factory steps (construct :: 'a DiscoveryWrapper))"
    using uniqueRecords_construct by (rule uniqueRecords_run)
  then have "distinct (map key (deref target (run factory steps construct)))"
    by (simp add: uniqueRecords_def)
  with ij have "key (deref target (run factory steps construct) ! i)
      \<noteq> key (deref target (run factory steps construct) ! j)"
    by (auto simp: distinct_conv_nth)
  then show "\<not> recEq (deref target (run factory steps construct) ! i)
                   (deref target (run factory steps construct) ! j)"
    by (simp add: recEq_key)
next
  fix r
  assume "r \<in> set (deref target (run factory (steps @ [(e, CallCleanUp target)]) construct))"
  then show "\<not> expired e r"
    by (simp add: run_append cleanUp_deref)
qed

text \<open>Two sightings of \<open>10.0.0.5:80\<close> and one of \<open>10.0.0.6:80\<close> leave two records, which
  are not equal; a \<open>cleanUp\<close> at time 38 then leaves the one record that is still due.\<close>

theorem lists_hold_no_two_equal_records_witness:
  "deref WledDevices (run factory7
      [(hostAt 0, CallGotMessage WledDevices (sighting WLED ''10.0.0.5'' 80 True 0)),
       (hostAt 5, CallGotMessage WledDevices (sighting WLED ''10.0.0.6'' 80 True 5)),
       (hostAt 9, CallGotMessage WledDevices (sighting WLED ''10.0.0.5'' 80 True 9))] construct)
     = [(sighting WLED ''10.0.0.5'' 80 True 0)\<lparr>expiry := 39\<rparr>, sighting WLED ''10.0.0.6'' 80 True 5]
   \<and> \<not> recEq ((sighting WLED ''10.0.0.5'' 80 True 0)\<lparr>expiry := 39\<rparr>) (sighting WLED ''10.0.0.6'' 80 True 5)
   \<and> deref WledDevices (run factory7
      ([(hostAt 0, CallGotMessage WledDevices (sighting WLED ''10.0.0.5'' 80 True 0)),
        (hostAt 5, CallGotMessage WledDevices (sighting WLED ''10.0.0.6'' 80 True 5)),
        (hostAt 9, CallGotMessage WledDevices (sighting WLED ''10.0.0.5'' 80 True 9))]
        @ [(hostAt 38, CallCleanUp WledDevices)]) construct)
     = [(sighting WLED ''10.0.0.5'' 80 True 0)\<lparr>expiry := 39\<rparr>]
   \<and> \<not> expired (hostAt 38) ((sighting WLED ''10.0.0.5'' 80 True 0)\<lparr>expiry := 39\<rparr>)"
proof -
  have s: "deref WledDevices (run factory7
      [(hostAt 0, CallGotMessage WledDevices (sighting WLED ''10.0.0.5'' 80 True 0)),
       (hostAt 5, CallGotMessage WledDevices (sighting WLED ''10.0.0.6'' 80 True 5)),
       (hostAt 9, CallGotMessage WledDevices (sighting WLED ''10.0.0.5'' 80 True 9))] construct)
     = [(sighting WLED ''10.0.0.5'' 80 True 0)\<lparr>expiry := 39\<rparr>, sighting WLED ''10.0.0.6'' 80 True 5]"
    by (simp add: gotMessage_def commit_def Let_def emit_def recEq_def resetTTL_def hostAt_def
        sighting_def construct_def)
  have c: "deref WledDevices (run factory7
      ([(hostAt 0, CallGotMessage WledDevices (sighting WLED ''10.0.0.5'' 80 True 0)),
        (hostAt 5, CallGotMessage WledDevices (sighting WLED ''10.0.0.6'' 80 True 5)),
        (hostAt 9, CallGotMessage WledDevices (sighting WLED ''10.0.0.5'' 80 True 9))]
        @ [(hostAt 38, CallCleanUp WledDevices)]) construct)
     = [(sighting WLED ''10.0.0.5'' 80 True 0)\<lparr>expiry := 39\<rparr>]"
    by (simp add: gotMessage_def commit_def cleanUp_def Let_def emit_def recEq_def resetTTL_def
        expired_def hostAt_def sighting_def construct_def)
  note t = lists_hold_no_two_equal_records [of WledDevices factory7
      "[(hostAt 0, CallGotMessage WledDevices (sighting WLED ''10.0.0.5'' 80 True 0)),
        (hostAt 5, CallGotMessage WledDevices (sighting WLED ''10.0.0.6'' 80 True 5)),
        (hostAt 9, CallGotMessage WledDevices (sighting WLED ''10.0.0.5'' 80 True 9))]" "hostAt 38"]
  from t [THEN conjunct1, rule_format, of 0 1]
  have a: "\<not> recEq ((sighting WLED ''10.0.0.5'' 80 True 0)\<lparr>expiry := 39\<rparr>)
      (sighting WLED ''10.0.0.6'' 80 True 5)"
    unfolding s by simp
  from t [THEN conjunct2]
  have b: "\<not> expired (hostAt 38) ((sighting WLED ''10.0.0.5'' 80 True 0)\<lparr>expiry := 39\<rparr>)"
    unfolding c by simp
  from s a c b show ?thesis by blast
qed

text \<open>C1 as stated fails: at time 50 a second device is sighted, and after this step the
  list still holds the record of the first device, which has expired at time 31.\<close>

theorem expired_record_outlives_gotMessage_counterexample:
  "deref WledDevices (run factory7
      [(hostAt 0, CallGotMessage WledDevices (sighting WLED ''10.0.0.5'' 80 True 0)),
       (hostAt 50, CallGotMessage WledDevices (sighting WLED ''10.0.0.6'' 80 True 50))] construct)
     = [sighting WLED ''10.0.0.5'' 80 True 0, sighting WLED ''10.0.0.6'' 80 True 50]
   \<and> expired (hostAt 50) (sighting WLED ''10.0.0.5'' 80 True 0)
   \<and> \<not> now (hostAt 50) < expiry (sighting WLED ''10.0.0.5'' 80 True 0)"
  by (simp add: gotMessage_def commit_def Let_def emit_def recEq_def expired_def hostAt_def
      sighting_def construct_def)

section \<open>The categories of the lists\<close>

lemma categorised_construct: "categorised construct"
proof -
  have "deref t (construct :: 'a DiscoveryWrapper) = []" for t
    by (cases t) (simp_all add: construct_def)
  then show ?thesis by (simp add: categorised_def)
qed

lemma categorised_cleanUp: "categorised s \<Longrightarrow> categorised (cleanUp e t s)"
  by (simp add: categorised_def cleanUp_deref)

lemma refreshFirst_types: "refreshFirst e xs m = Some ys \<Longrightarrow> map type ys = map type xs"
  by (induction xs arbitrary: ys) (auto simp: resetTTL_def split: if_splits)

lemma categorised_gotMessage:
  assumes "categorised s" and m: "type m = category t"
  shows "categorised (gotMessage e t m s)"
proof -
  have old: "\<forall>r\<in>set (deref x s). type r = category x" for x
    using assms(1) by (simp add: categorised_def)
  have "\<forall>r\<in>set (deref x (gotMessage e t m s)). type r = category x" for x
  proof (cases "QHostAddress e (address m) \<in> set (allAddresses e)")
    case True
    then show ?thesis using old by (simp add: gotMessage_self)
  next
    case False
    show ?thesis
    proof (cases "isExists m")
      case True
      show ?thesis
      proof (cases "refreshFirst e (deref t s) m")
        case None
        then have no: "\<forall>r\<in>set (deref t s). \<not> recEq r m"
          by (simp add: refreshFirst_None)
        show ?thesis
          using old m
          by (auto simp: gotMessage_append [OF False True no] deref_emit deref_assign)
      next
        case (Some ys)
        then have "set (map type ys) = set (map type (deref t s))"
          by (simp add: refreshFirst_types)
        then have "\<forall>r\<in>set ys. type r = category t"
          using old [of t] by (auto simp: image_iff)
        then show ?thesis
          using old by (simp add: gotMessage_refresh [OF False True Some] deref_assign)
      qed
    next
      case ex: False
      show ?thesis
        using old by (simp add: gotMessage_remove [OF False ex] deref_emit deref_assign)
    qed
  qed
  then show ?thesis by (simp add: categorised_def)
qed

lemma categorised_discoveryEventHandler:
  "categorised s \<Longrightarrow> categorised (discoveryEventHandler e m s)"
  by (simp add: discoveryEventHandler_def categorised_gotMessage)

lemma categorised_call:
  assumes "categorised s" "dispatched (snd c)"
  shows "categorised (call factory c s)"
proof (cases c)
  case (Pair e k)
  have same: "categorised (emitRequestToScan factory t x) = categorised x" for t x
    by (simp add: categorised_def emitRequestToScan_deref)
  have "categorised (requestServicesScan factory e s)"
    using assms(1) by (simp add: categorised_def requestServicesScan_deref)
  moreover have "categorised (requestToScanHandler factory t s)" for t
    using assms(1) by (simp add: categorised_def requestToScanHandler_deref)
  ultimately show ?thesis
    using assms Pair
    by (cases k)
       (simp_all add: categorised_cleanUp categorised_gotMessage getPhilipsHUE_def getWLED_def
          Let_def same getHyperHDRServices_def getAllServices_def
          categorised_discoveryEventHandler)
qed

lemma categorised_run:
  "categorised s \<Longrightarrow> \<forall>c\<in>set steps. dispatched (snd c) \<Longrightarrow> categorised (run factory steps s)"
  by (induction steps arbitrary: s) (simp_all add: categorised_call)

lemma category_not_Unknown: "category t \<noteq> Unknown"
  by (cases t) simp_all

lemma expiryNotice_categorised:
  assumes "\<forall>r\<in>set xs. type r = category t"
  shows "expiryNotice e xs =
     (if \<exists>r\<in>set xs. expired e r
      then [FoundService (category t) (filter (\<lambda>r. \<not> expired e r) xs)] else [])"
proof (cases "filter (expired e) xs = []")
  case True
  then show ?thesis by (simp add: expiryNotice_def filter_empty_conv)
next
  case False
  then have "last (filter (expired e) xs) \<in> set (filter (expired e) xs)"
    by (rule last_in_set)
  then have "type (last (filter (expired e) xs)) = category t"
    using assms by simp
  with False show ?thesis
    by (simp add: expiryNotice_def Let_def category_not_Unknown filter_empty_conv)
qed

text \<open>
  C2. In every state that the wrapper reaches from its construction by calls as the
  source makes them (\<open>gotMessage\<close> only on the list of the sighting's category, as
  \<open>discoveryEventHandler\<close> calls it), \<open>cleanUp\<close> leaves in the list exactly the records
  that are not expired, in their order. It emits exactly one \<open>foundService\<close>, with the
  category of the list and the list left, iff at least one record has expired, however
  many did; when no record has expired it emits nothing and the whole object, the list
  with it, is unchanged.
\<close>

theorem cleanUp_removes_expired:
  assumes "\<forall>c\<in>set steps. dispatched (snd c)"
  shows "deref target (cleanUp e target (run factory steps construct))
           = filter (\<lambda>r. \<not> expired e r) (deref target (run factory steps construct))
         \<and> emitted (cleanUp e target (run factory steps construct))
           = emitted (run factory steps construct) @
             (if \<exists>r\<in>set (deref target (run factory steps construct)). expired e r
              then [FoundService (category target)
                      (filter (\<lambda>r. \<not> expired e r) (deref target (run factory steps construct)))]
              else [])
         \<and> ((\<forall>r\<in>set (deref target (run factory steps construct)). \<not> expired e r)
              \<longrightarrow> cleanUp e target (run factory steps construct) = run factory steps construct)"
proof -
  have "categorised (run factory steps construct)"
    using categorised_construct assms by (rule categorised_run)
  then have c: "\<forall>r\<in>set (deref target (run factory steps construct)). type r = category target"
    by (simp add: categorised_def)
  have "deref target (cleanUp e target (run factory steps construct))
           = filter (\<lambda>r. \<not> expired e r) (deref target (run factory steps construct))"
    by (simp add: cleanUp_deref)
  moreover have "emitted (cleanUp e target (run factory steps construct))
           = emitted (run factory steps construct) @
             (if \<exists>r\<in>set (deref target (run factory steps construct)). expired e r
              then [FoundService (category target)
                      (filter (\<lambda>r. \<not> expired e r) (deref target (run factory steps construct)))]
              else [])"
    using expiryNotice_categorised [OF c, of e] by (simp add: cleanUp_emitted)
  moreover have "(\<forall>r\<in>set (deref target (run factory steps construct)). \<not> expired e r)
      \<longrightarrow> cleanUp e target (run factory steps construct) = run factory steps construct"
    by (simp add: cleanUp_none_expired filter_empty_conv)
  ultimately show ?thesis by blast
qed

text \<open>Three WLED devices are sighted at the times 0, 10 and 90. A \<open>cleanUp\<close> at time 100
  removes the first two and announces the one left, once; a \<open>cleanUp\<close> at time 20 removes
  nothing and changes nothing.\<close>

theorem cleanUp_removes_expired_witness:
  "deref WledDevices (cleanUp (hostAt 100) WledDevices (run factory7
      [(hostAt 0, CallDiscoveryEventHandler (sighting WLED ''10.0.0.5'' 80 True 0)),
       (hostAt 10, CallDiscoveryEventHandler (sighting WLED ''10.0.0.7'' 80 True 10)),
       (hostAt 90, CallDiscoveryEventHandler (sighting WLED ''10.0.0.6'' 80 True 90))] construct))
     = [sighting WLED ''10.0.0.6'' 80 True 90]
   \<and> drop 3 (emitted (cleanUp (hostAt 100) WledDevices (run factory7
      [(hostAt 0, CallDiscoveryEventHandler (sighting WLED ''10.0.0.5'' 80 True 0)),
       (hostAt 10, CallDiscoveryEventHandler (sighting WLED ''10.0.0.7'' 80 True 10)),
       (hostAt 90, CallDiscoveryEventHandler (sighting WLED ''10.0.0.6'' 80 True 90))] construct)))
     = [FoundService WLED [sighting WLED ''10.0.0.6'' 80 True 90]]
   \<and> cleanUp (hostAt 20) WledDevices (run factory7
      [(hostAt 0, CallDiscoveryEventHandler (sighting WLED ''10.0.0.5'' 80 True 0)),
       (hostAt 10, CallDiscoveryEventHandler (sighting WLED ''10.0.0.7'' 80 True 10))] construct)
     = run factory7
      [(hostAt 0, CallDiscoveryEventHandler (sighting WLED ''10.0.0.5'' 80 True 0)),
       (hostAt 10, CallDiscoveryEventHandler (sighting WLED ''10.0.0.7'' 80 True 10))] construct"
proof -
  have h1: "\<forall>c\<in>set [(hostAt 0, CallDiscoveryEventHandler (sighting WLED ''10.0.0.5'' 80 True 0)),
       (hostAt 10, CallDiscoveryEventHandler (sighting WLED ''10.0.0.7'' 80 True 10)),
       (hostAt 90, CallDiscoveryEventHandler (sighting WLED ''10.0.0.6'' 80 True 90))].
       dispatched (snd c)"
    by simp
  have h2: "\<forall>c\<in>set [(hostAt 0, CallDiscoveryEventHandler (sighting WLED ''10.0.0.5'' 80 True 0)),
       (hostAt 10, CallDiscoveryEventHandler (sighting WLED ''10.0.0.7'' 80 True 10))].
       dispatched (snd c)"
    by simp
  have s1: "run factory7
      [(hostAt 0, CallDiscoveryEventHandler (sighting WLED ''10.0.0.5'' 80 True 0)),
       (hostAt 10, CallDiscoveryEventHandler (sighting WLED ''10.0.0.7'' 80 True 10)),
       (hostAt 90, CallDiscoveryEventHandler (sighting WLED ''10.0.0.6'' 80 True 90))] construct
     = construct\<lparr>wledDevices := [sighting WLED ''10.0.0.5'' 80 True 0,
          sighting WLED ''10.0.0.7'' 80 True 10, sighting WLED ''10.0.0.6'' 80 True 90],
        emitted := [FoundService WLED [sighting WLED ''10.0.0.5'' 80 True 0],
          FoundService WLED [sighting WLED ''10.0.0.5'' 80 True 0, sighting WLED ''10.0.0.7'' 80 True 10],
          FoundService WLED [sighting WLED ''10.0.0.5'' 80 True 0,
            sighting WLED ''10.0.0.7'' 80 True 10, sighting WLED ''10.0.0.6'' 80 True 90]]\<rparr>"
    by (simp add: discoveryEventHandler_def gotMessage_def commit_def Let_def emit_def recEq_def
        hostAt_def sighting_def construct_def)
  have s2: "deref WledDevices (run factory7
      [(hostAt 0, CallDiscoveryEventHandler (sighting WLED ''10.0.0.5'' 80 True 0)),
       (hostAt 10, CallDiscoveryEventHandler (sighting WLED ''10.0.0.7'' 80 True 10))] construct)
     = [sighting WLED ''10.0.0.5'' 80 True 0, sighting WLED ''10.0.0.7'' 80 True 10]"
    by (simp add: discoveryEventHandler_def gotMessage_def commit_def Let_def emit_def recEq_def
        hostAt_def sighting_def construct_def)
  from cleanUp_removes_expired [OF h1, of WledDevices "hostAt 100" factory7]
  have a: "deref WledDevices (cleanUp (hostAt 100) WledDevices (run factory7
      [(hostAt 0, CallDiscoveryEventHandler (sighting WLED ''10.0.0.5'' 80 True 0)),
       (hostAt 10, CallDiscoveryEventHandler (sighting WLED ''10.0.0.7'' 80 True 10)),
       (hostAt 90, CallDiscoveryEventHandler (sighting WLED ''10.0.0.6'' 80 True 90))] construct))
     = [sighting WLED ''10.0.0.6'' 80 True 90]"
    and b: "drop 3 (emitted (cleanUp (hostAt 100) WledDevices (run factory7
      [(hostAt 0, CallDiscoveryEventHandler (sighting WLED ''10.0.0.5'' 80 True 0)),
       (hostAt 10, CallDiscoveryEventHandler (sighting WLED ''10.0.0.7'' 80 True 10)),
       (hostAt 90, CallDiscoveryEventHandler (sighting WLED ''10.0.0.6'' 80 True 90))] construct)))
     = [FoundService WLED [sighting WLED ''10.0.0.6'' 80 True 90]]"
    unfolding s1 by (simp_all add: expired_def hostAt_def sighting_def construct_def)
  from cleanUp_removes_expired [OF h2, of WledDevices "hostAt 20" factory7]
  have c: "cleanUp (hostAt 20) WledDevices (run factory7
      [(hostAt 0, CallDiscoveryEventHandler (sighting WLED ''10.0.0.5'' 80 True 0)),
       (hostAt 10, CallDiscoveryEventHandler (sighting WLED ''10.0.0.7'' 80 True 10))] construct)
     = run factory7
      [(hostAt 0, CallDiscoveryEventHandler (sighting WLED ''10.0.0.5'' 80 True 0)),
       (hostAt 10, CallDiscoveryEventHandler (sighting WLED ''10.0.0.7'' 80 True 10))] construct"
    unfolding s2 by (simp add: expired_def hostAt_def sighting_def)
  from a b c show ?thesis by blast
qed

end
